theory Spec2Isabelle
  imports Main
begin

section \<open>Python values, exceptions and dictionaries\<close>

text \<open>
  An exception object is its class name and its message. A Python value is one of the
  few shapes the client handles: configuration entries, keyword arguments, the
  payload of a response. A dict literal is an association list read with
  \<^const>\<open>map_of\<close>.
\<close>

datatype exn = Exn (exc_class: string) (exc_message: string)

datatype pyval =
    PNone
  | PBool bool
  | PInt int
  | PStr string
  | PExc exn
  | PDict "(string \<times> pyval) list"

type_synonym pydict = "(string \<times> pyval) list"

definition Empty :: exn where
  \<comment> \<open>\<open>moves.queue.Empty\<close>\<close>
  "Empty = Exn ''Empty'' ''''"

definition MistralException :: "string \<Rightarrow> exn" where
  \<comment> \<open>\<open>exc.MistralException(message)\<close>\<close>
  "MistralException msg = Exn ''MistralException'' msg"

definition TypeError :: "string \<Rightarrow> exn" where
  "TypeError msg = Exn ''TypeError'' msg"

definition KeyError :: "string \<Rightarrow> exn" where
  "KeyError k = Exn ''KeyError'' k"

definition conf_get :: "pydict \<Rightarrow> string \<Rightarrow> pyval \<Rightarrow> pyval" where
  \<comment> \<open>\<open>conf.get(key, default)\<close>\<close>
  "conf_get conf k d = (case map_of conf k of Some v \<Rightarrow> v | None \<Rightarrow> d)"

section \<open>Broker objects\<close>

datatype uuid = Uuid nat

record connection =
  c_host :: pyval
  c_port :: pyval
  c_user_id :: pyval
  c_password :: pyval
  c_virtual_host :: pyval

record exchange_obj =
  ex_name :: pyval
  ex_durable :: pyval
  ex_auto_delete :: pyval

text \<open>\<open>kombu.Queue(name, exchange=, routing_key=, durable=, exclusive=, auto_delete=)\<close>\<close>

record queue =
  q_name :: uuid
  q_exchange :: exchange_obj
  q_routing_key :: uuid
  q_durable :: bool
  q_exclusive :: bool
  q_auto_delete :: bool

text \<open>The keyword arguments of one \<open>producer.publish(...)\<close>.\<close>

record message =
  body :: pydict
  msg_exchange :: pyval
  routing_key :: pyval
  reply_to :: uuid
  correlation_id :: uuid
  serializer :: string
  delivery_mode :: nat

section \<open>The world outside the client\<close>

datatype pending_call = Waiting | Fulfilled pydict | TimedOut

datatype event =
    MakeQueue queue
  | ListenerStart connection queue
  | AddListener uuid
  | Publish message
  | GetResult uuid pyval
  | RemoveListener uuid

text \<open>
  The mutable state the client works on: the source of fresh identifiers, the registry
  of its listener, and the history of the calls it has made on its collaborators. The
  history keeps, with every call, the registry in which the call was made.
\<close>

record world =
  next_uuid :: nat
  registry :: "uuid \<rightharpoonup> pending_call"
  history :: "(event \<times> (uuid \<rightharpoonup> pending_call)) list"

text \<open>
  What the collaborators that are not part of the client answer: the two keys of a
  response (\<open>kombu_base.TYPE\<close>, \<open>kombu_base.RESULT\<close>), whether the connection can be
  made, whether a producer can be acquired, whether a publication fails, and the
  response (if any) that reaches the listener for a correlation id within the timeout.
\<close>

record deps =
  kombu_TYPE :: string
  kombu_RESULT :: string
  connect_failure :: "connection \<Rightarrow> exn option"
  acquire_failure :: "exn option"
  publish_failure :: "message \<Rightarrow> exn option"
  delivered :: "uuid \<Rightarrow> pyval \<Rightarrow> pydict option"

definition events :: "world \<Rightarrow> event list" where
  "events w = map fst (history w)"

definition emit :: "event \<Rightarrow> world \<Rightarrow> world" where
  \<comment> \<open>the one place where the history grows: the event, and the registry as it is now\<close>
  "emit e w = w\<lparr>history := history w @ [(e, registry w)]\<rparr>"

definition trace_since :: "world \<Rightarrow> world \<Rightarrow> event list" where
  \<comment> \<open>the events added on the way from \<open>w\<close> to \<open>w'\<close>\<close>
  "trace_since w w' = drop (length (events w)) (events w')"

definition registry_since :: "world \<Rightarrow> world \<Rightarrow> (uuid \<rightharpoonup> pending_call) list" where
  \<comment> \<open>for each of these events, the registry in which it took place\<close>
  "registry_since w w' = map snd (drop (length (history w)) (history w'))"

definition issued :: "world \<Rightarrow> uuid \<Rightarrow> bool" where
  \<comment> \<open>Modelled from the spec: the identifiers that \<open>utils.generate_unicode_uuid\<close> has
      handed out so far; an identifier is never handed out twice.\<close>
  "issued w u = (case u of Uuid n \<Rightarrow> n < next_uuid w)"

definition generate_unicode_uuid :: "world \<Rightarrow> uuid \<times> world" where
  \<comment> \<open>Modelled from the spec: \<open>utils.generate_unicode_uuid\<close> is missing; the spec asks
      for a globally unique identifier, generated per call, never reused.\<close>
  "generate_unicode_uuid w = (Uuid (next_uuid w), w\<lparr>next_uuid := Suc (next_uuid w)\<rparr>)"

definition make_connection ::
  "deps \<Rightarrow> pyval \<Rightarrow> pyval \<Rightarrow> pyval \<Rightarrow> pyval \<Rightarrow> pyval \<Rightarrow> exn + connection" where
  \<comment> \<open>Modelled from the spec: \<open>kombu_base.Base._make_connection\<close> is missing;
      \<open>connect(host, port, credentials, virtual_host) -> Connection\<close>, failing with a
      connection error if the handshake fails.\<close>
  "make_connection E h p u pw vh =
     (let c = \<lparr>c_host = h, c_port = p, c_user_id = u, c_password = pw, c_virtual_host = vh\<rparr>
      in case connect_failure E c of Some e \<Rightarrow> Inl e | None \<Rightarrow> Inr c)"

definition make_exchange :: "pyval \<Rightarrow> pyval \<Rightarrow> pyval \<Rightarrow> exchange_obj" where
  \<comment> \<open>Modelled from the spec: \<open>kombu_base.Base._make_exchange\<close> is missing;
      \<open>declare_exchange(name, durable, auto_delete) -> Exchange\<close>.\<close>
  "make_exchange n d a = \<lparr>ex_name = n, ex_durable = d, ex_auto_delete = a\<rparr>"

subsection \<open>The listener\<close>

definition listener_start :: "connection \<Rightarrow> queue \<Rightarrow> world \<Rightarrow> world" where
  \<comment> \<open>Modelled from the spec: \<open>kombu_listener.KombuRPCListener\<close> is missing; a listener
      is created on the connection and the reply queue with an empty registry and
      started.\<close>
  "listener_start c q w = emit (ListenerStart c q) (w\<lparr>registry := Map.empty\<rparr>)"

definition add_listener :: "uuid \<Rightarrow> world \<Rightarrow> world" where
  \<comment> \<open>Modelled from the spec: \<open>KombuRPCListener.add_listener\<close> is missing; it inserts a
      new Waiting Pending Call.\<close>
  "add_listener cid w = emit (AddListener cid) (w\<lparr>registry := (registry w)(cid \<mapsto> Waiting)\<rparr>)"

definition remove_listener :: "uuid \<Rightarrow> world \<Rightarrow> world" where
  \<comment> \<open>Modelled from the spec: \<open>KombuRPCListener.remove_listener\<close> is missing; it
      unconditionally, idempotently deletes the Registry entry.\<close>
  "remove_listener cid w = emit (RemoveListener cid) (w\<lparr>registry := (registry w)(cid := None)\<rparr>)"

definition settle :: "uuid \<Rightarrow> pending_call \<Rightarrow> world \<Rightarrow> world" where
  \<comment> \<open>Modelled from the spec: a Pending Call that exists is mutated once, to Fulfilled
      by the listener or to TimedOut by the timed wait; nothing is created here.\<close>
  "settle cid p w =
     (if registry w cid = None then w else w\<lparr>registry := (registry w)(cid \<mapsto> p)\<rparr>)"

definition get_result :: "deps \<Rightarrow> uuid \<Rightarrow> pyval \<Rightarrow> world \<Rightarrow> (exn + pydict) \<times> world" where
  \<comment> \<open>Modelled from the spec: \<open>KombuRPCListener.get_result\<close> is missing; it blocks until
      the Pending Call is Fulfilled or the timeout elapses, and fails on elapse (the
      client catches \<open>queue.Empty\<close>).\<close>
  "get_result E cid tmo w =
     (let w1 = emit (GetResult cid tmo) w in
      case delivered E cid tmo of
        None \<Rightarrow> (Inl Empty, settle cid TimedOut w1)
      | Some r \<Rightarrow> (Inr r, settle cid (Fulfilled r) w1))"

definition publish :: "deps \<Rightarrow> message \<Rightarrow> world \<Rightarrow> (exn + unit) \<times> world" where
  \<comment> \<open>\<open>producer.publish(...)\<close> of kombu: one attempt, which the broker accepts or not\<close>
  "publish E m w =
     (case publish_failure E m of
        Some e \<Rightarrow> (Inl e, emit (Publish m) w)
      | None \<Rightarrow> (Inr (), emit (Publish m) w))"

section \<open>KombuRPCClient\<close>

record auth_context =
  ctx_dict :: pydict

definition to_dict :: "auth_context \<Rightarrow> pydict" where
  "to_dict ctx = ctx_dict ctx"

record client =
  exchange :: pyval
  user_id :: pyval
  password :: pyval
  topic :: pyval
  server_id :: pyval
  host :: pyval
  port :: pyval
  virtual_host :: pyval
  durable_queue :: pyval
  auto_delete :: pyval
  timeout :: pyval
  conn :: connection
  queue_name :: uuid
  callback_queue :: queue

definition init :: "deps \<Rightarrow> pydict \<Rightarrow> world \<Rightarrow> (exn + client) \<times> world" where
  \<comment> \<open>\<open>KombuRPCClient.__init__\<close>\<close>
  "init E conf w =
     (let exchange_v = conf_get conf ''exchange'' (PStr '''');
          user_id_v = conf_get conf ''user_id'' (PStr ''guest'');
          password_v = conf_get conf ''password'' (PStr ''guest'');
          topic_v = conf_get conf ''topic'' (PStr ''mistral'');
          server_id_v = conf_get conf ''server_id'' (PStr '''');
          host_v = conf_get conf ''host'' (PStr ''localhost'');
          port_v = conf_get conf ''port'' (PInt 5672);
          virtual_host_v = conf_get conf ''virtual_host'' (PStr ''/'');
          durable_queue_v = conf_get conf ''durable_queues'' (PBool False);
          auto_delete_v = conf_get conf ''auto_delete'' (PBool False);
          timeout_v = conf_get conf ''timeout'' (PInt 60)
      in case make_connection E host_v port_v user_id_v password_v virtual_host_v of
           Inl e \<Rightarrow> (Inl e, w)
         | Inr c \<Rightarrow>
            (let exchange_o = make_exchange exchange_v durable_queue_v auto_delete_v;
                 (qn, w1) = generate_unicode_uuid w;
                 cq = \<lparr>q_name = qn, q_exchange = exchange_o, q_routing_key = qn,
                       q_durable = False, q_exclusive = True, q_auto_delete = True\<rparr>;
                 w2 = emit (MakeQueue cq) w1;
                 w3 = listener_start c cq w2
             in (Inr \<lparr>exchange = exchange_v, user_id = user_id_v, password = password_v,
                      topic = topic_v, server_id = server_id_v, host = host_v,
                      port = port_v, virtual_host = virtual_host_v,
                      durable_queue = durable_queue_v, auto_delete = auto_delete_v,
                      timeout = timeout_v, conn = c, queue_name = qn,
                      callback_queue = cq\<rparr>, w3)))"

definition wait_for_result ::
  "deps \<Rightarrow> client \<Rightarrow> uuid \<Rightarrow> world \<Rightarrow> (exn + pydict) \<times> world" where
  \<comment> \<open>\<open>KombuRPCClient._wait_for_result\<close>\<close>
  "wait_for_result E cl cid w =
     (case get_result E cid (timeout cl) w of
        (Inl e, w1) \<Rightarrow>
          if exc_class e = exc_class Empty
          then (Inl (MistralException ''RPC Request timeout''), w1)
          else (Inl e, w1)
      | (Inr r, w1) \<Rightarrow> (Inr r, w1))"

definition call_try ::
  "deps \<Rightarrow> client \<Rightarrow> pydict \<Rightarrow> uuid \<Rightarrow> bool \<Rightarrow> world \<Rightarrow> (exn + pyval) \<times> world" where
  \<comment> \<open>the \<open>try\<close> block of \<open>_call\<close>: the value it returns or leaves in
      \<open>res_object\<close>, or the exception that leaves it\<close>
  "call_try E cl bdy cid async w =
     (let w1 = (if \<not> async then add_listener cid w else w) in
      case acquire_failure E of
        Some e \<Rightarrow> (Inl e, w1)
      | None \<Rightarrow>
         (case publish E \<lparr>body = bdy, msg_exchange = exchange cl, routing_key = topic cl,
                          reply_to = queue_name cl, correlation_id = cid,
                          serializer = ''mistral_serialization'', delivery_mode = 2\<rparr> w1 of
            (Inl e, w2) \<Rightarrow> (Inl e, w2)
          | (Inr _, w2) \<Rightarrow>
             if async then (Inr PNone, w2)
             else
              (case wait_for_result E cl cid w2 of
                 (Inl e, w3) \<Rightarrow> (Inl e, w3)
               | (Inr result, w3) \<Rightarrow>
                  (case map_of result (kombu_TYPE E) of
                     None \<Rightarrow> (Inl (KeyError (kombu_TYPE E)), w3)
                   | Some res_type \<Rightarrow>
                      (case map_of result (kombu_RESULT E) of
                         None \<Rightarrow> (Inl (KeyError (kombu_RESULT E)), w3)
                       | Some res_object \<Rightarrow>
                          if res_type = PStr ''error''
                          then (case res_object of
                                  PExc e \<Rightarrow> (Inl e, w3)
                                | _ \<Rightarrow> (Inl (TypeError ''exceptions must derive from BaseException''), w3))
                          else (Inr res_object, w3))))))"

definition call ::
  "deps \<Rightarrow> client \<Rightarrow> auth_context \<Rightarrow> string \<Rightarrow> pyval \<Rightarrow> bool \<Rightarrow> pydict \<Rightarrow> world
     \<Rightarrow> (exn + pyval) \<times> world" where
  \<comment> \<open>\<open>KombuRPCClient._call\<close>: the \<open>finally\<close> block runs on every way out of the
      \<open>try\<close> block\<close>
  "call E cl ctx method target async kwargs w =
     (let (cid, w1) = generate_unicode_uuid w;
          bdy = [(''rpc_ctx'', PDict (to_dict ctx)),
                 (''rpc_method'', PStr method),
                 (''arguments'', PDict kwargs),
                 (''async'', PBool async)];
          (r, w2) = call_try E cl bdy cid async w1;
          w3 = (if \<not> async then remove_listener cid w2 else w2)
      in (r, w3))"

definition sync_call ::
  "deps \<Rightarrow> client \<Rightarrow> auth_context \<Rightarrow> string \<Rightarrow> pyval \<Rightarrow> pydict \<Rightarrow> world
     \<Rightarrow> (exn + pyval) \<times> world" where
  \<comment> \<open>\<open>self._call(ctx, method, async=False, target=target, **kwargs)\<close>: a keyword
      argument named \<open>async\<close> would be passed twice, which Python refuses before
      \<open>_call\<close> starts\<close>
  "sync_call E cl ctx method target kwargs w =
     (if map_of kwargs ''async'' \<noteq> None
      then (Inl (TypeError ''_call() got multiple values for keyword argument async''), w)
      else call E cl ctx method target False kwargs w)"

definition async_call ::
  "deps \<Rightarrow> client \<Rightarrow> auth_context \<Rightarrow> string \<Rightarrow> pyval \<Rightarrow> pydict \<Rightarrow> world
     \<Rightarrow> (exn + pyval) \<times> world" where
  \<comment> \<open>\<open>self._call(ctx, method, async=True, target=target, **kwargs)\<close>\<close>
  "async_call E cl ctx method target kwargs w =
     (if map_of kwargs ''async'' \<noteq> None
      then (Inl (TypeError ''_call() got multiple values for keyword argument async''), w)
      else call E cl ctx method target True kwargs w)"

section \<open>The request of a call, and a concrete client\<close>

definition request ::
  "client \<Rightarrow> auth_context \<Rightarrow> string \<Rightarrow> bool \<Rightarrow> pydict \<Rightarrow> uuid \<Rightarrow> message" where
  \<comment> \<open>the message that \<open>_call\<close> hands to \<open>producer.publish\<close>\<close>
  "request cl ctx method async kwargs cid =
     \<lparr>body = [(''rpc_ctx'', PDict (to_dict ctx)),
              (''rpc_method'', PStr method),
              (''arguments'', PDict kwargs),
              (''async'', PBool async)],
      msg_exchange = exchange cl, routing_key = topic cl,
      reply_to = queue_name cl, correlation_id = cid,
      serializer = ''mistral_serialization'', delivery_mode = 2\<rparr>"

definition example_deps :: "exn option \<Rightarrow> pydict option \<Rightarrow> deps" where
  \<comment> \<open>a broker that connects and hands out producers; \<open>pf\<close> is the failure of a
      publication, \<open>resp\<close> the response that arrives in time\<close>
  "example_deps pf resp =
     \<lparr>kombu_TYPE = ''type'', kombu_RESULT = ''result'',
      connect_failure = (\<lambda>c. None), acquire_failure = None,
      publish_failure = (\<lambda>m. pf), delivered = (\<lambda>cid tmo. resp)\<rparr>"

definition example_world :: world where
  "example_world = \<lparr>next_uuid = 0, registry = Map.empty, history = []\<rparr>"

definition example_conf :: pydict where
  "example_conf = [(''exchange'', PStr ''openstack''), (''topic'', PStr ''engine''),
                   (''timeout'', PInt 1)]"

definition example_ctx :: auth_context where
  "example_ctx = \<lparr>ctx_dict = [(''user'', PStr ''admin'')]\<rparr>"

definition example_queue :: queue where
  "example_queue =
     \<lparr>q_name = Uuid 0,
      q_exchange = \<lparr>ex_name = PStr ''openstack'', ex_durable = PBool False,
                    ex_auto_delete = PBool False\<rparr>,
      q_routing_key = Uuid 0, q_durable = False, q_exclusive = True,
      q_auto_delete = True\<rparr>"

definition example_client :: client where
  \<comment> \<open>the client that \<open>__init__\<close> builds from \<open>example_conf\<close> in \<open>example_world\<close>\<close>
  "example_client =
     \<lparr>exchange = PStr ''openstack'', user_id = PStr ''guest'', password = PStr ''guest'',
      topic = PStr ''engine'', server_id = PStr [], host = PStr ''localhost'',
      port = PInt 5672, virtual_host = PStr ''/'', durable_queue = PBool False,
      auto_delete = PBool False, timeout = PInt 1,
      conn = \<lparr>c_host = PStr ''localhost'', c_port = PInt 5672, c_user_id = PStr ''guest'',
               c_password = PStr ''guest'', c_virtual_host = PStr ''/''\<rparr>,
      queue_name = Uuid 0, callback_queue = example_queue\<rparr>"

definition started_world :: world where
  \<comment> \<open>the world after that construction\<close>
  "started_world =
     \<lparr>next_uuid = 1, registry = Map.empty,
      history = [(MakeQueue example_queue, Map.empty),
                 (ListenerStart (conn example_client) example_queue, Map.empty)]\<rparr>"

section \<open>The Request Envelope of the specification\<close>

text \<open>
  The specification describes a request as the logical envelope
  \<open>{ context, method, arguments, is_async }\<close>. The record below is that envelope, and
  \<open>envelope_of_body\<close> reads it from a published body: the body must consist of exactly
  the four entries \<open>rpc_ctx\<close>, \<open>rpc_method\<close>, \<open>arguments\<close> and \<open>async\<close>.
\<close>

record spec_request_envelope =
  env_context :: pydict
  env_method :: string
  env_arguments :: pydict
  env_is_async :: bool

definition envelope_of_body :: "pydict \<Rightarrow> spec_request_envelope option" where
  "envelope_of_body b =
     (case (map_of b ''rpc_ctx'', map_of b ''rpc_method'', map_of b ''arguments'',
            map_of b ''async'') of
        (Some (PDict c), Some (PStr n), Some (PDict a), Some (PBool i)) \<Rightarrow>
          if length b = 4
          then Some \<lparr>env_context = c, env_method = n, env_arguments = a, env_is_async = i\<rparr>
          else None
      | _ \<Rightarrow> None)"

section \<open>What a call does to the world\<close>

lemma events_emit [simp]: "events (emit e w) = events w @ [e]"
  by (simp add: emit_def events_def)

lemma events_registry_update [simp]: "events (w\<lparr>registry := r\<rparr>) = events w"
  by (simp add: events_def)

lemma events_next_uuid_update [simp]: "events (w\<lparr>next_uuid := n\<rparr>) = events w"
  by (simp add: events_def)

lemma history_emit [simp]: "history (emit e w) = history w @ [(e, registry w)]"
  by (simp add: emit_def)

lemma registry_emit [simp]: "registry (emit e w) = registry w"
  by (simp add: emit_def)

lemma next_uuid_emit [simp]: "next_uuid (emit e w) = next_uuid w"
  by (simp add: emit_def)

lemma call_sync_events:
  "events (snd (call E cl ctx method target False kwargs w)) =
     events w @ AddListener (Uuid (next_uuid w)) #
       (case acquire_failure E of Some e \<Rightarrow> []
        | None \<Rightarrow> Publish (request cl ctx method False kwargs (Uuid (next_uuid w))) #
            (case publish_failure E (request cl ctx method False kwargs (Uuid (next_uuid w))) of
               Some e \<Rightarrow> [] | None \<Rightarrow> [GetResult (Uuid (next_uuid w)) (timeout cl)]))
       @ [RemoveListener (Uuid (next_uuid w))]"
  by (simp add: call_def call_try_def generate_unicode_uuid_def add_listener_def
        remove_listener_def publish_def wait_for_result_def get_result_def settle_def
        request_def Let_def
      split: option.splits sum.splits prod.splits pyval.splits)

lemma call_async_events:
  "events (snd (call E cl ctx method target True kwargs w)) =
     events w @
       (case acquire_failure E of Some e \<Rightarrow> []
        | None \<Rightarrow> [Publish (request cl ctx method True kwargs (Uuid (next_uuid w)))])"
  by (simp add: call_def call_try_def generate_unicode_uuid_def publish_def request_def Let_def
      split: option.splits sum.splits prod.splits)

lemma call_sync_registry:
  "registry (snd (call E cl ctx method target False kwargs w)) =
     (registry w)(Uuid (next_uuid w) := None)"
  by (simp add: call_def call_try_def generate_unicode_uuid_def add_listener_def
        remove_listener_def publish_def wait_for_result_def get_result_def settle_def Let_def
      split: option.splits sum.splits prod.splits pyval.splits)

lemma call_async_registry:
  "registry (snd (call E cl ctx method target True kwargs w)) = registry w"
  by (simp add: call_def call_try_def generate_unicode_uuid_def publish_def Let_def
      split: option.splits sum.splits prod.splits)

lemma sync_call_trace:
  "trace_since w (snd (sync_call E cl ctx method target kwargs w)) =
     (if map_of kwargs ''async'' \<noteq> None then []
      else AddListener (Uuid (next_uuid w)) #
       (case acquire_failure E of Some e \<Rightarrow> []
        | None \<Rightarrow> Publish (request cl ctx method False kwargs (Uuid (next_uuid w))) #
            (case publish_failure E (request cl ctx method False kwargs (Uuid (next_uuid w))) of
               Some e \<Rightarrow> [] | None \<Rightarrow> [GetResult (Uuid (next_uuid w)) (timeout cl)]))
       @ [RemoveListener (Uuid (next_uuid w))])"
  by (simp add: sync_call_def call_sync_events trace_since_def)

lemma async_call_trace:
  "trace_since w (snd (async_call E cl ctx method target kwargs w)) =
     (if map_of kwargs ''async'' \<noteq> None then []
      else (case acquire_failure E of Some e \<Rightarrow> []
        | None \<Rightarrow> [Publish (request cl ctx method True kwargs (Uuid (next_uuid w)))]))"
  by (simp add: async_call_def call_async_events trace_since_def)

lemma sync_call_registry:
  "registry (snd (sync_call E cl ctx method target kwargs w)) =
     (if map_of kwargs ''async'' \<noteq> None then registry w
      else (registry w)(Uuid (next_uuid w) := None))"
  by (simp add: sync_call_def call_sync_registry)

lemma async_call_registry:
  "registry (snd (async_call E cl ctx method target kwargs w)) = registry w"
  by (simp add: async_call_def call_async_registry)

section \<open>What a call returns or raises\<close>

lemma call_sync_result:
  "fst (call E cl ctx method target False kwargs w) =
     (case acquire_failure E of Some e \<Rightarrow> Inl e
      | None \<Rightarrow>
        (case publish_failure E (request cl ctx method False kwargs (Uuid (next_uuid w))) of
           Some e \<Rightarrow> Inl e
         | None \<Rightarrow>
           (case delivered E (Uuid (next_uuid w)) (timeout cl) of
              None \<Rightarrow> Inl (MistralException ''RPC Request timeout'')
            | Some result \<Rightarrow>
               (case map_of result (kombu_TYPE E) of
                  None \<Rightarrow> Inl (KeyError (kombu_TYPE E))
                | Some res_type \<Rightarrow>
                   (case map_of result (kombu_RESULT E) of
                      None \<Rightarrow> Inl (KeyError (kombu_RESULT E))
                    | Some res_object \<Rightarrow>
                       if res_type = PStr ''error''
                       then (case res_object of
                               PExc e \<Rightarrow> Inl e
                             | _ \<Rightarrow> Inl (TypeError ''exceptions must derive from BaseException''))
                       else Inr res_object)))))"
  by (simp add: call_def call_try_def generate_unicode_uuid_def add_listener_def
        remove_listener_def publish_def wait_for_result_def get_result_def settle_def
        request_def Let_def Empty_def
      split: option.splits sum.splits prod.splits pyval.splits)

lemma call_async_result:
  "fst (call E cl ctx method target True kwargs w) =
     (case acquire_failure E of Some e \<Rightarrow> Inl e
      | None \<Rightarrow>
        (case publish_failure E (request cl ctx method True kwargs (Uuid (next_uuid w))) of
           Some e \<Rightarrow> Inl e
         | None \<Rightarrow> Inr PNone))"
  by (simp add: call_def call_try_def generate_unicode_uuid_def publish_def request_def Let_def
      split: option.splits sum.splits prod.splits)

lemma sync_call_result:
  "fst (sync_call E cl ctx method target kwargs w) =
     (if map_of kwargs ''async'' \<noteq> None
      then Inl (TypeError ''_call() got multiple values for keyword argument async'')
      else fst (call E cl ctx method target False kwargs w))"
  by (simp add: sync_call_def)

lemma async_call_result:
  "fst (async_call E cl ctx method target kwargs w) =
     (if map_of kwargs ''async'' \<noteq> None
      then Inl (TypeError ''_call() got multiple values for keyword argument async'')
      else (case acquire_failure E of Some e \<Rightarrow> Inl e
      | None \<Rightarrow>
        (case publish_failure E (request cl ctx method True kwargs (Uuid (next_uuid w))) of
           Some e \<Rightarrow> Inl e
         | None \<Rightarrow> Inr PNone)))"
  by (simp add: async_call_def call_async_result)

lemma correlation_id_request:
  "correlation_id (request cl ctx method a kwargs cid) = cid"
  by (simp add: request_def)

lemma envelope_of_request:
  "envelope_of_body (body (request cl ctx method a kwargs cid)) =
     Some \<lparr>env_context = to_dict ctx, env_method = method, env_arguments = kwargs,
           env_is_async = a\<rparr>"
  by (simp add: envelope_of_body_def request_def)

section \<open>What the construction of a client does\<close>

lemma init_client:
  assumes "fst (init E conf w) = Inr cl"
  shows "exchange cl = conf_get conf ''exchange'' (PStr '''')"
    and "topic cl = conf_get conf ''topic'' (PStr ''mistral'')"
    and "timeout cl = conf_get conf ''timeout'' (PInt 60)"
    and "queue_name cl = Uuid (next_uuid w)"
    and "callback_queue cl =
           \<lparr>q_name = Uuid (next_uuid w),
            q_exchange = make_exchange (conf_get conf ''exchange'' (PStr ''''))
                           (conf_get conf ''durable_queues'' (PBool False))
                           (conf_get conf ''auto_delete'' (PBool False)),
            q_routing_key = Uuid (next_uuid w),
            q_durable = False, q_exclusive = True, q_auto_delete = True\<rparr>"
  using assms
  by (auto simp: init_def Let_def generate_unicode_uuid_def
      split: sum.splits prod.splits)

lemma init_events:
  assumes "fst (init E conf w) = Inr cl"
  shows "events (snd (init E conf w)) =
           events w @ [MakeQueue (callback_queue cl), ListenerStart (conn cl) (callback_queue cl)]"
  using assms
  by (auto simp: init_def Let_def generate_unicode_uuid_def listener_start_def
      split: sum.splits prod.splits)

lemma init_example:
  "init (example_deps pf resp) example_conf example_world = (Inr example_client, started_world)"
  by (simp add: init_def Let_def generate_unicode_uuid_def listener_start_def
        make_connection_def make_exchange_def conf_get_def emit_def
        example_deps_def example_conf_def example_world_def example_client_def
        example_queue_def started_world_def)

lemma sync_call_example_trace:
  "trace_since started_world
     (snd (sync_call (example_deps None resp) example_client example_ctx ''run'' PNone
             [(''a'', PInt 1)] started_world))
   = [AddListener (Uuid 1),
      Publish (request example_client example_ctx ''run'' False [(''a'', PInt 1)] (Uuid 1)),
      GetResult (Uuid 1) (PInt 1), RemoveListener (Uuid 1)]"
  by (simp add: sync_call_trace example_deps_def started_world_def example_client_def)

lemma async_call_example_trace:
  "trace_since started_world
     (snd (async_call (example_deps pf resp) example_client example_ctx ''run'' PNone
             [(''a'', PInt 1)] started_world))
   = [Publish (request example_client example_ctx ''run'' True [(''a'', PInt 1)] (Uuid 1))]"
  by (simp add: async_call_trace example_deps_def started_world_def)

section \<open>Fresh identifiers, and the registry at each event\<close>

lemma history_registry_update [simp]: "history (w\<lparr>registry := r\<rparr>) = history w"
  by simp

lemma generate_unicode_uuid_fresh: "\<not> issued w (fst (generate_unicode_uuid w))"
  by (simp add: issued_def generate_unicode_uuid_def)

lemma generate_unicode_uuid_issues:
  "issued (snd (generate_unicode_uuid w)) u
     \<longleftrightarrow> issued w u \<or> u = fst (generate_unicode_uuid w)"
  by (cases u) (auto simp: issued_def generate_unicode_uuid_def)

lemma issued_not_generated: "issued w u \<Longrightarrow> fst (generate_unicode_uuid w) \<noteq> u"
  by (auto simp: issued_def generate_unicode_uuid_def)

lemma next_uuid_call:
  "next_uuid (snd (call E cl ctx method target a kwargs w)) = Suc (next_uuid w)"
  by (simp add: call_def call_try_def generate_unicode_uuid_def add_listener_def
        remove_listener_def publish_def wait_for_result_def get_result_def settle_def Let_def
      split: option.splits sum.splits prod.splits pyval.splits)

lemma next_uuid_init:
  "fst (init E conf w) = Inr cl \<Longrightarrow> next_uuid (snd (init E conf w)) = Suc (next_uuid w)"
  by (auto simp: init_def Let_def generate_unicode_uuid_def listener_start_def
      split: sum.splits prod.splits)

lemma call_sync_history:
  "registry_since w (snd (call E cl ctx method target False kwargs w)) =
     (registry w)(Uuid (next_uuid w) \<mapsto> Waiting) #
       (case acquire_failure E of Some e \<Rightarrow> []
        | None \<Rightarrow> (registry w)(Uuid (next_uuid w) \<mapsto> Waiting) #
            (case publish_failure E (request cl ctx method False kwargs (Uuid (next_uuid w))) of
               Some e \<Rightarrow> [] | None \<Rightarrow> [(registry w)(Uuid (next_uuid w) \<mapsto> Waiting)]))
       @ [(registry w)(Uuid (next_uuid w) := None)]"
  by (simp add: call_def call_try_def generate_unicode_uuid_def add_listener_def
        remove_listener_def publish_def wait_for_result_def get_result_def settle_def
        request_def Let_def registry_since_def
      split: option.splits sum.splits prod.splits pyval.splits)

lemma sync_call_registry_since:
  "registry_since w (snd (sync_call E cl ctx method target kwargs w)) =
     (if map_of kwargs ''async'' \<noteq> None then []
      else (registry w)(Uuid (next_uuid w) \<mapsto> Waiting) #
       (case acquire_failure E of Some e \<Rightarrow> []
        | None \<Rightarrow> (registry w)(Uuid (next_uuid w) \<mapsto> Waiting) #
            (case publish_failure E (request cl ctx method False kwargs (Uuid (next_uuid w))) of
               Some e \<Rightarrow> [] | None \<Rightarrow> [(registry w)(Uuid (next_uuid w) \<mapsto> Waiting)]))
       @ [(registry w)(Uuid (next_uuid w) := None)])"
  by (simp add: sync_call_def call_sync_history) (simp add: registry_since_def)

lemma sync_call_issued:
  "map_of kwargs ''async'' = None \<Longrightarrow>
     issued (snd (sync_call E cl ctx method target kwargs w)) u
       \<longleftrightarrow> issued w u \<or> u = fst (generate_unicode_uuid w)"
  by (cases u) (auto simp: sync_call_def issued_def next_uuid_call generate_unicode_uuid_def)

lemma async_call_issued:
  "map_of kwargs ''async'' = None \<Longrightarrow>
     issued (snd (async_call E cl ctx method target kwargs w)) u
       \<longleftrightarrow> issued w u \<or> u = fst (generate_unicode_uuid w)"
  by (cases u) (auto simp: async_call_def issued_def next_uuid_call generate_unicode_uuid_def)

section \<open>Registration precedes publication\<close>

text \<open>
  C1. In the trace of a synchronous call, every publication is preceded by the call
  \<open>add_listener(correlation_id)\<close> for the correlation id of the published message, and
  the registry in which the publication takes place holds a Waiting slot for that id:
  the slot exists before any response to the request can arrive.
\<close>

theorem sync_call_registers_before_publishing:
  assumes "i < length (trace_since w (snd (sync_call E cl ctx method target kwargs w)))"
      and "trace_since w (snd (sync_call E cl ctx method target kwargs w)) ! i = Publish m"
  shows "(\<exists>j<i. trace_since w (snd (sync_call E cl ctx method target kwargs w)) ! j
                   = AddListener (correlation_id m))
         \<and> (registry_since w (snd (sync_call E cl ctx method target kwargs w)) ! i)
               (correlation_id m) = Some Waiting"
proof -
  let ?tr = "trace_since w (snd (sync_call E cl ctx method target kwargs w))"
  let ?rs = "registry_since w (snd (sync_call E cl ctx method target kwargs w))"
  let ?cid = "Uuid (next_uuid w)"
  let ?m = "request cl ctx method False kwargs ?cid"
  from assms(1) have bound: "map_of kwargs ''async'' = None"
    by (cases "map_of kwargs ''async''") (simp_all add: sync_call_trace)
  from assms bound have acq: "acquire_failure E = None"
    by (cases "acquire_failure E") (auto simp: sync_call_trace nth_Cons' split: if_splits)
  have tr: "?tr = AddListener ?cid # Publish ?m #
              (case publish_failure E ?m of Some e \<Rightarrow> [] | None \<Rightarrow> [GetResult ?cid (timeout cl)])
              @ [RemoveListener ?cid]"
    using bound acq by (simp add: sync_call_trace)
  have rs: "?rs ! 1 = (registry w)(?cid \<mapsto> Waiting)"
    using bound acq by (simp add: sync_call_registry_since)
  from assms tr have i: "i = 1" and m: "m = ?m"
    by (auto simp: nth_Cons' nth_append split: if_splits option.splits)
  have c: "correlation_id m = ?cid"
    by (simp add: m correlation_id_request)
  have "0 < i" and "?tr ! 0 = AddListener (correlation_id m)"
    using tr by (simp_all add: i c)
  then have "\<exists>j<i. ?tr ! j = AddListener (correlation_id m)"
    by blast
  moreover have "(?rs ! i) (correlation_id m) = Some Waiting"
    using rs by (simp add: i c)
  ultimately show ?thesis by blast
qed

theorem sync_call_registers_before_publishing_witness:
  "1 < length (trace_since started_world
         (snd (sync_call (example_deps None None) example_client example_ctx ''run'' PNone
                 [(''a'', PInt 1)] started_world)))
   \<and> trace_since started_world
         (snd (sync_call (example_deps None None) example_client example_ctx ''run'' PNone
                 [(''a'', PInt 1)] started_world)) ! 1
       = Publish (request example_client example_ctx ''run'' False [(''a'', PInt 1)] (Uuid 1))
   \<and> (\<exists>j<1. trace_since started_world
         (snd (sync_call (example_deps None None) example_client example_ctx ''run'' PNone
                 [(''a'', PInt 1)] started_world)) ! j = AddListener (Uuid 1))
   \<and> (registry_since started_world
         (snd (sync_call (example_deps None None) example_client example_ctx ''run'' PNone
                 [(''a'', PInt 1)] started_world)) ! 1) (Uuid 1) = Some Waiting"
proof -
  have h1: "1 < length (trace_since started_world
         (snd (sync_call (example_deps None None) example_client example_ctx ''run'' PNone
                 [(''a'', PInt 1)] started_world)))"
    by (simp add: sync_call_example_trace)
  have h2: "trace_since started_world
         (snd (sync_call (example_deps None None) example_client example_ctx ''run'' PNone
                 [(''a'', PInt 1)] started_world)) ! 1
       = Publish (request example_client example_ctx ''run'' False [(''a'', PInt 1)] (Uuid 1))"
    by (simp add: sync_call_example_trace)
  from sync_call_registers_before_publishing [OF h1 h2] h1 h2
  show ?thesis by (simp add: correlation_id_request)
qed

section \<open>Cleanup on every way out\<close>

text \<open>
  C2. A synchronous call whose keyword arguments reach \<open>_call\<close> invokes
  \<open>remove_listener(correlation_id)\<close> exactly once, as the last thing it does, and on no
  other id, whatever the broker and the remote side do (value return, remote error,
  timeout, publish failure or any other failure inside the \<open>try\<close> block); afterwards
  the registry holds no entry for the correlation id of the call.
\<close>

theorem sync_call_removes_listener_once:
  assumes "map_of kwargs ''async'' = None"
  shows "(\<forall>c. count_list (trace_since w (snd (sync_call E cl ctx method target kwargs w)))
                 (RemoveListener c) = (if c = Uuid (next_uuid w) then 1 else 0))
       \<and> last (trace_since w (snd (sync_call E cl ctx method target kwargs w)))
           = RemoveListener (Uuid (next_uuid w))
       \<and> registry (snd (sync_call E cl ctx method target kwargs w)) (Uuid (next_uuid w)) = None"
proof -
  have "registry (snd (sync_call E cl ctx method target kwargs w)) (Uuid (next_uuid w)) = None"
    using assms by (simp add: sync_call_registry)
  moreover have "last (trace_since w (snd (sync_call E cl ctx method target kwargs w)))
           = RemoveListener (Uuid (next_uuid w))"
    using assms by (simp add: sync_call_trace)
  moreover have "count_list (trace_since w (snd (sync_call E cl ctx method target kwargs w)))
                 (RemoveListener c) = (if c = Uuid (next_uuid w) then 1 else 0)" for c
    using assms by (simp add: sync_call_trace split: option.splits)
  ultimately show ?thesis by blast
qed

theorem sync_call_removes_listener_once_witness:
  "map_of [(''a'', PInt 1)] ''async'' = None
   \<and> count_list (trace_since started_world
         (snd (sync_call (example_deps None None) example_client example_ctx ''run'' PNone
                 [(''a'', PInt 1)] started_world))) (RemoveListener (Uuid 1)) = 1
   \<and> count_list (trace_since started_world
         (snd (sync_call (example_deps None None) example_client example_ctx ''run'' PNone
                 [(''a'', PInt 1)] started_world))) (RemoveListener (Uuid 0)) = 0
   \<and> last (trace_since started_world
         (snd (sync_call (example_deps None None) example_client example_ctx ''run'' PNone
                 [(''a'', PInt 1)] started_world))) = RemoveListener (Uuid 1)
   \<and> registry (snd (sync_call (example_deps None None) example_client example_ctx ''run'' PNone
                 [(''a'', PInt 1)] started_world)) (Uuid 1) = None"
proof -
  have h: "map_of [(''a'', PInt 1)] ''async'' = None"
    by simp
  have n: "next_uuid started_world = 1"
    by (simp add: started_world_def)
  from sync_call_removes_listener_once [OF h, of started_world "example_deps None None"
      example_client example_ctx "''run''" PNone]
  show ?thesis
    using h by (simp add: n)
qed

section \<open>The outcome of a synchronous call\<close>

text \<open>
  C3. When a synchronous call has waited and a response with a kind and a payload has
  reached it, then if the kind is \<open>error\<close> and the payload is an exception object, the
  call raises that very object, and if the kind is anything else (a result), the call
  returns the payload.
\<close>

theorem sync_call_outcome_of_response:
  assumes "GetResult cid tmo \<in> set (trace_since w (snd (sync_call E cl ctx method target kwargs w)))"
      and "delivered E cid tmo = Some result"
      and "map_of result (kombu_TYPE E) = Some kind"
      and "map_of result (kombu_RESULT E) = Some payload"
  shows "(kind = PStr ''error'' \<and> payload = PExc e \<longrightarrow>
            fst (sync_call E cl ctx method target kwargs w) = Inl e)
       \<and> (kind \<noteq> PStr ''error'' \<longrightarrow>
            fst (sync_call E cl ctx method target kwargs w) = Inr payload)"
proof -
  from assms(1) have bound: "map_of kwargs ''async'' = None"
    by (cases "map_of kwargs ''async''") (simp_all add: sync_call_trace)
  from assms(1) bound have acq: "acquire_failure E = None"
    by (cases "acquire_failure E") (simp_all add: sync_call_trace)
  from assms(1) bound acq
  have pub: "publish_failure E (request cl ctx method False kwargs (Uuid (next_uuid w))) = None"
    by (cases "publish_failure E (request cl ctx method False kwargs (Uuid (next_uuid w)))")
       (simp_all add: sync_call_trace)
  from assms(1) bound acq pub have ids: "cid = Uuid (next_uuid w)" "tmo = timeout cl"
    by (simp_all add: sync_call_trace)
  show ?thesis
    using bound acq pub ids assms(2-4)
    by (simp add: sync_call_result call_sync_result)
qed

theorem sync_call_outcome_of_response_witness:
  "fst (sync_call
          (example_deps None
             (Some [(''type'', PStr ''error''),
                    (''result'', PExc (Exn ''ValueError'' ''bad arg''))]))
          example_client example_ctx ''run'' PNone [(''a'', PInt 1)] started_world)
     = Inl (Exn ''ValueError'' ''bad arg'')
   \<and> fst (sync_call
          (example_deps None (Some [(''type'', PStr ''result''), (''result'', PInt 3)]))
          example_client example_ctx ''run'' PNone [(''a'', PInt 1)] started_world)
     = Inr (PInt 3)"
proof -
  let ?err = "[(''type'', PStr ''error''), (''result'', PExc (Exn ''ValueError'' ''bad arg''))]"
  let ?ok = "[(''type'', PStr ''result''), (''result'', PInt 3)]"
  have e1: "GetResult (Uuid 1) (PInt 1) \<in> set (trace_since started_world
         (snd (sync_call (example_deps None (Some ?err)) example_client example_ctx ''run''
                 PNone [(''a'', PInt 1)] started_world)))"
    by (simp add: sync_call_example_trace)
  have e2: "delivered (example_deps None (Some ?err)) (Uuid 1) (PInt 1) = Some ?err"
    by (simp add: example_deps_def)
  have e3: "map_of ?err (kombu_TYPE (example_deps None (Some ?err))) = Some (PStr ''error'')"
    by (simp add: example_deps_def)
  have e4: "map_of ?err (kombu_RESULT (example_deps None (Some ?err)))
              = Some (PExc (Exn ''ValueError'' ''bad arg''))"
    by (simp add: example_deps_def)
  have o1: "GetResult (Uuid 1) (PInt 1) \<in> set (trace_since started_world
         (snd (sync_call (example_deps None (Some ?ok)) example_client example_ctx ''run''
                 PNone [(''a'', PInt 1)] started_world)))"
    by (simp add: sync_call_example_trace)
  have o2: "delivered (example_deps None (Some ?ok)) (Uuid 1) (PInt 1) = Some ?ok"
    by (simp add: example_deps_def)
  have o3: "map_of ?ok (kombu_TYPE (example_deps None (Some ?ok))) = Some (PStr ''result'')"
    by (simp add: example_deps_def)
  have o4: "map_of ?ok (kombu_RESULT (example_deps None (Some ?ok))) = Some (PInt 3)"
    by (simp add: example_deps_def)
  from sync_call_outcome_of_response [OF e1 e2 e3 e4, of "Exn ''ValueError'' ''bad arg''"]
       sync_call_outcome_of_response [OF o1 o2 o3 o4]
  show ?thesis by simp
qed

section \<open>The error raised on a timeout\<close>

text \<open>
  C4. When no response arrives in time, \<open>sync_call\<close> raises
  \<open>MistralException("RPC Request timeout")\<close>, an instance of the base class of the
  exceptions of the service and not of a class of its own (the docstring of
  \<open>_wait_for_result\<close> announces an \<open>RpcTimeout\<close> exception). A remote side that reports
  a \<open>MistralException\<close> with the same message makes \<open>sync_call\<close> raise an equal
  exception, so the caller cannot tell the timeout from the remote error.
\<close>

theorem timeout_raises_plain_MistralException:
  "fst (sync_call (example_deps None None) example_client example_ctx ''run'' PNone
          [(''a'', PInt 1)] started_world)
     = Inl (Exn ''MistralException'' ''RPC Request timeout'')
   \<and> fst (sync_call
            (example_deps None
               (Some [(''type'', PStr ''error''),
                      (''result'', PExc (Exn ''MistralException'' ''RPC Request timeout''))]))
            example_client example_ctx ''run'' PNone [(''a'', PInt 1)] started_world)
     = Inl (Exn ''MistralException'' ''RPC Request timeout'')"
  by (simp add: sync_call_result call_sync_result example_deps_def MistralException_def)

section \<open>Asynchronous calls\<close>

text \<open>
  C5. An asynchronous call never calls \<open>add_listener\<close>, \<open>remove_listener\<close> or
  \<open>get_result\<close> and leaves the registry as it was. When its publication is accepted it
  returns \<open>None\<close> and the publication is the only and last thing it has done; whenever
  it returns at all, it returns \<open>None\<close> right after its one publication.
\<close>

theorem async_call_never_registers_or_waits:
  "(\<forall>c. AddListener c \<notin> set (trace_since w (snd (async_call E cl ctx method target kwargs w)))
       \<and> RemoveListener c \<notin> set (trace_since w (snd (async_call E cl ctx method target kwargs w))))
   \<and> (\<forall>c t. GetResult c t \<notin> set (trace_since w (snd (async_call E cl ctx method target kwargs w))))
   \<and> registry (snd (async_call E cl ctx method target kwargs w)) = registry w
   \<and> (\<forall>m. Publish m \<in> set (trace_since w (snd (async_call E cl ctx method target kwargs w)))
          \<and> publish_failure E m = None \<longrightarrow>
          fst (async_call E cl ctx method target kwargs w) = Inr PNone
          \<and> trace_since w (snd (async_call E cl ctx method target kwargs w)) = [Publish m])
   \<and> (\<forall>v. fst (async_call E cl ctx method target kwargs w) = Inr v \<longrightarrow>
          v = PNone
          \<and> (\<exists>m. trace_since w (snd (async_call E cl ctx method target kwargs w)) = [Publish m]))"
  unfolding async_call_trace async_call_result async_call_registry
  by (auto split: option.splits)

theorem async_call_never_registers_or_waits_witness:
  "Publish (request example_client example_ctx ''run'' True [(''a'', PInt 1)] (Uuid 1))
     \<in> set (trace_since started_world
         (snd (async_call (example_deps None None) example_client example_ctx ''run'' PNone
                 [(''a'', PInt 1)] started_world)))
   \<and> publish_failure (example_deps None None)
        (request example_client example_ctx ''run'' True [(''a'', PInt 1)] (Uuid 1)) = None
   \<and> fst (async_call (example_deps None None) example_client example_ctx ''run'' PNone
             [(''a'', PInt 1)] started_world) = Inr PNone
   \<and> trace_since started_world
         (snd (async_call (example_deps None None) example_client example_ctx ''run'' PNone
                 [(''a'', PInt 1)] started_world))
       = [Publish (request example_client example_ctx ''run'' True [(''a'', PInt 1)] (Uuid 1))]
   \<and> registry (snd (async_call (example_deps None None) example_client example_ctx ''run'' PNone
                 [(''a'', PInt 1)] started_world)) (Uuid 1) = None"
proof -
  let ?m = "request example_client example_ctx ''run'' True [(''a'', PInt 1)] (Uuid 1)"
  have h1: "Publish ?m \<in> set (trace_since started_world
         (snd (async_call (example_deps None None) example_client example_ctx ''run'' PNone
                 [(''a'', PInt 1)] started_world)))"
    by (simp add: async_call_example_trace)
  have h2: "publish_failure (example_deps None None) ?m = None"
    by (simp add: example_deps_def)
  have r: "registry started_world (Uuid 1) = None"
    by (simp add: started_world_def)
  from async_call_never_registers_or_waits [of started_world "example_deps None None"
      example_client example_ctx "''run''" PNone "[(''a'', PInt 1)]"]
  have "registry (snd (async_call (example_deps None None) example_client example_ctx ''run''
                  PNone [(''a'', PInt 1)] started_world)) = registry started_world"
    and "\<forall>m. Publish m \<in> set (trace_since started_world
           (snd (async_call (example_deps None None) example_client example_ctx ''run'' PNone
                   [(''a'', PInt 1)] started_world)))
          \<and> publish_failure (example_deps None None) m = None \<longrightarrow>
          fst (async_call (example_deps None None) example_client example_ctx ''run'' PNone
                 [(''a'', PInt 1)] started_world) = Inr PNone
          \<and> trace_since started_world
           (snd (async_call (example_deps None None) example_client example_ctx ''run'' PNone
                   [(''a'', PInt 1)] started_world)) = [Publish m]"
    by blast+
  with h1 h2 r show ?thesis
    by simp
qed

section \<open>The published request\<close>

text \<open>
  C6. Whatever a call publishes has as its body exactly the Request Envelope of the
  call: the context is \<open>ctx.to_dict()\<close>, the method is the given method name, the
  arguments are the given keyword arguments, and \<open>is_async\<close> is false for \<open>sync_call\<close>
  and true for \<open>async_call\<close>.
\<close>

theorem published_body_is_request_envelope:
  "(Publish m \<in> set (trace_since w (snd (sync_call E cl ctx method target kwargs w))) \<longrightarrow>
      envelope_of_body (body m) =
        Some \<lparr>env_context = to_dict ctx, env_method = method, env_arguments = kwargs,
              env_is_async = False\<rparr>)
   \<and> (Publish m \<in> set (trace_since w (snd (async_call E cl ctx method target kwargs w))) \<longrightarrow>
      envelope_of_body (body m) =
        Some \<lparr>env_context = to_dict ctx, env_method = method, env_arguments = kwargs,
              env_is_async = True\<rparr>)"
  unfolding sync_call_trace async_call_trace
  by (auto simp: envelope_of_request split: option.splits if_splits)

theorem published_body_is_request_envelope_witness:
  "Publish (request example_client example_ctx ''run'' False [(''a'', PInt 1)] (Uuid 1))
     \<in> set (trace_since started_world
         (snd (sync_call (example_deps None None) example_client example_ctx ''run'' PNone
                 [(''a'', PInt 1)] started_world)))
   \<and> envelope_of_body
       (body (request example_client example_ctx ''run'' False [(''a'', PInt 1)] (Uuid 1)))
     = Some \<lparr>env_context = [(''user'', PStr ''admin'')], env_method = ''run'',
             env_arguments = [(''a'', PInt 1)], env_is_async = False\<rparr>
   \<and> Publish (request example_client example_ctx ''run'' True [(''a'', PInt 1)] (Uuid 1))
     \<in> set (trace_since started_world
         (snd (async_call (example_deps None None) example_client example_ctx ''run'' PNone
                 [(''a'', PInt 1)] started_world)))
   \<and> envelope_of_body
       (body (request example_client example_ctx ''run'' True [(''a'', PInt 1)] (Uuid 1)))
     = Some \<lparr>env_context = [(''user'', PStr ''admin'')], env_method = ''run'',
             env_arguments = [(''a'', PInt 1)], env_is_async = True\<rparr>"
proof -
  let ?s = "request example_client example_ctx ''run'' False [(''a'', PInt 1)] (Uuid 1)"
  let ?a = "request example_client example_ctx ''run'' True [(''a'', PInt 1)] (Uuid 1)"
  have h1: "Publish ?s \<in> set (trace_since started_world
         (snd (sync_call (example_deps None None) example_client example_ctx ''run'' PNone
                 [(''a'', PInt 1)] started_world)))"
    by (simp add: sync_call_example_trace)
  have h2: "Publish ?a \<in> set (trace_since started_world
         (snd (async_call (example_deps None None) example_client example_ctx ''run'' PNone
                 [(''a'', PInt 1)] started_world)))"
    by (simp add: async_call_example_trace)
  have c: "to_dict example_ctx = [(''user'', PStr ''admin'')]"
    by (simp add: to_dict_def example_ctx_def)
  from published_body_is_request_envelope [of ?s started_world "example_deps None None"
         example_client example_ctx "''run''" PNone "[(''a'', PInt 1)]"]
       published_body_is_request_envelope [of ?a started_world "example_deps None None"
         example_client example_ctx "''run''" PNone "[(''a'', PInt 1)]"]
       h1 h2
  show ?thesis
    by (simp add: c)
qed

text \<open>
  C7. For a client built by \<open>__init__\<close> from a configuration, whatever \<open>sync_call\<close> or
  \<open>async_call\<close> publishes goes to the configured exchange with the configured topic as
  routing key, with \<open>reply_to\<close> the name of the client's own queue, delivery mode 2
  (persistent), and as \<open>correlation_id\<close> the identifier that the generator hands out
  at the start of this call: it had not been handed out before, and after the call it
  counts as handed out, so that no later call or client gets it again. A call whose
  keyword arguments reach \<open>_call\<close> and that gets a producer publishes exactly one
  request, synchronous or not.
\<close>

theorem request_is_published_as_configured:
  assumes "fst (init E0 conf w0) = Inr cl"
  shows "(Publish m \<in> set (trace_since w (snd (sync_call E cl ctx method target kwargs w))) \<longrightarrow>
            msg_exchange m = conf_get conf ''exchange'' (PStr '''')
          \<and> routing_key m = conf_get conf ''topic'' (PStr ''mistral'')
          \<and> reply_to m = q_name (callback_queue cl)
          \<and> correlation_id m = fst (generate_unicode_uuid w)
          \<and> \<not> issued w (correlation_id m)
          \<and> issued (snd (sync_call E cl ctx method target kwargs w)) (correlation_id m)
          \<and> delivery_mode m = 2)
       \<and> (Publish m \<in> set (trace_since w (snd (async_call E cl ctx method target kwargs w))) \<longrightarrow>
            msg_exchange m = conf_get conf ''exchange'' (PStr '''')
          \<and> routing_key m = conf_get conf ''topic'' (PStr ''mistral'')
          \<and> reply_to m = q_name (callback_queue cl)
          \<and> correlation_id m = fst (generate_unicode_uuid w)
          \<and> \<not> issued w (correlation_id m)
          \<and> issued (snd (async_call E cl ctx method target kwargs w)) (correlation_id m)
          \<and> delivery_mode m = 2)
       \<and> (map_of kwargs ''async'' = None \<and> acquire_failure E = None \<longrightarrow>
            (\<exists>ms. \<forall>m'. count_list (trace_since w (snd (sync_call E cl ctx method target kwargs w)))
                          (Publish m') = (if m' = ms then 1 else 0))
          \<and> (\<exists>ma. \<forall>m'. count_list (trace_since w (snd (async_call E cl ctx method target kwargs w)))
                          (Publish m') = (if m' = ma then 1 else 0)))"
proof -
  let ?cid = "Uuid (next_uuid w)"
  note ic = init_client [OF assms]
  have fresh: "\<not> issued w ?cid"
    by (simp add: issued_def)
  have props: "msg_exchange (request cl ctx method a kwargs ?cid) = conf_get conf ''exchange'' (PStr '''')
          \<and> routing_key (request cl ctx method a kwargs ?cid) = conf_get conf ''topic'' (PStr ''mistral'')
          \<and> reply_to (request cl ctx method a kwargs ?cid) = q_name (callback_queue cl)
          \<and> correlation_id (request cl ctx method a kwargs ?cid) = fst (generate_unicode_uuid w)
          \<and> delivery_mode (request cl ctx method a kwargs ?cid) = 2" for a
    using ic by (simp add: request_def generate_unicode_uuid_def)
  have s: "Publish m \<in> set (trace_since w (snd (sync_call E cl ctx method target kwargs w)))
           \<Longrightarrow> m = request cl ctx method False kwargs ?cid \<and> map_of kwargs ''async'' = None"
    unfolding sync_call_trace by (auto split: option.splits if_splits)
  have a: "Publish m \<in> set (trace_since w (snd (async_call E cl ctx method target kwargs w)))
           \<Longrightarrow> m = request cl ctx method True kwargs ?cid \<and> map_of kwargs ''async'' = None"
    unfolding async_call_trace by (auto split: option.splits if_splits)
  have p1: "Publish m \<in> set (trace_since w (snd (sync_call E cl ctx method target kwargs w))) \<longrightarrow>
            msg_exchange m = conf_get conf ''exchange'' (PStr '''')
          \<and> routing_key m = conf_get conf ''topic'' (PStr ''mistral'')
          \<and> reply_to m = q_name (callback_queue cl)
          \<and> correlation_id m = fst (generate_unicode_uuid w)
          \<and> \<not> issued w (correlation_id m)
          \<and> issued (snd (sync_call E cl ctx method target kwargs w)) (correlation_id m)
          \<and> delivery_mode m = 2"
    using s props [of False] fresh
    by (auto simp: sync_call_issued correlation_id_request generate_unicode_uuid_def)
  have p2: "Publish m \<in> set (trace_since w (snd (async_call E cl ctx method target kwargs w))) \<longrightarrow>
            msg_exchange m = conf_get conf ''exchange'' (PStr '''')
          \<and> routing_key m = conf_get conf ''topic'' (PStr ''mistral'')
          \<and> reply_to m = q_name (callback_queue cl)
          \<and> correlation_id m = fst (generate_unicode_uuid w)
          \<and> \<not> issued w (correlation_id m)
          \<and> issued (snd (async_call E cl ctx method target kwargs w)) (correlation_id m)
          \<and> delivery_mode m = 2"
    using a props [of True] fresh
    by (auto simp: async_call_issued correlation_id_request generate_unicode_uuid_def)
  have p3: "map_of kwargs ''async'' = None \<and> acquire_failure E = None \<longrightarrow>
            (\<exists>ms. \<forall>m'. count_list (trace_since w (snd (sync_call E cl ctx method target kwargs w)))
                          (Publish m') = (if m' = ms then 1 else 0))
          \<and> (\<exists>ma. \<forall>m'. count_list (trace_since w (snd (async_call E cl ctx method target kwargs w)))
                          (Publish m') = (if m' = ma then 1 else 0))"
  proof (intro impI conjI)
    assume h: "map_of kwargs ''async'' = None \<and> acquire_failure E = None"
    have "\<forall>m'. count_list (trace_since w (snd (sync_call E cl ctx method target kwargs w)))
                 (Publish m') = (if m' = request cl ctx method False kwargs ?cid then 1 else 0)"
      using h by (auto simp: sync_call_trace split: option.splits)
    then show "\<exists>ms. \<forall>m'. count_list (trace_since w (snd (sync_call E cl ctx method target kwargs w)))
                          (Publish m') = (if m' = ms then 1 else 0)"
      by blast
    have "\<forall>m'. count_list (trace_since w (snd (async_call E cl ctx method target kwargs w)))
                 (Publish m') = (if m' = request cl ctx method True kwargs ?cid then 1 else 0)"
      using h by (auto simp: async_call_trace)
    then show "\<exists>ma. \<forall>m'. count_list (trace_since w (snd (async_call E cl ctx method target kwargs w)))
                          (Publish m') = (if m' = ma then 1 else 0)"
      by blast
  qed
  from p1 p2 p3 show ?thesis by blast
qed

theorem request_is_published_as_configured_witness:
  "fst (init (example_deps None None) example_conf example_world) = Inr example_client
   \<and> Publish (request example_client example_ctx ''run'' False [(''a'', PInt 1)] (Uuid 1))
     \<in> set (trace_since started_world
         (snd (sync_call (example_deps None None) example_client example_ctx ''run'' PNone
                 [(''a'', PInt 1)] started_world)))
   \<and> msg_exchange (request example_client example_ctx ''run'' False [(''a'', PInt 1)] (Uuid 1))
       = PStr ''openstack''
   \<and> routing_key (request example_client example_ctx ''run'' False [(''a'', PInt 1)] (Uuid 1))
       = PStr ''engine''
   \<and> reply_to (request example_client example_ctx ''run'' False [(''a'', PInt 1)] (Uuid 1))
       = Uuid 0
   \<and> correlation_id (request example_client example_ctx ''run'' False [(''a'', PInt 1)] (Uuid 1))
       = Uuid 1
   \<and> delivery_mode (request example_client example_ctx ''run'' False [(''a'', PInt 1)] (Uuid 1))
       = 2
   \<and> \<not> issued started_world (Uuid 1)
   \<and> issued (snd (sync_call (example_deps None None) example_client example_ctx ''run'' PNone
                 [(''a'', PInt 1)] started_world)) (Uuid 1)
   \<and> Publish (request example_client example_ctx ''run'' True [(''a'', PInt 1)] (Uuid 1))
     \<in> set (trace_since started_world
         (snd (async_call (example_deps None None) example_client example_ctx ''run'' PNone
                 [(''a'', PInt 1)] started_world)))
   \<and> msg_exchange (request example_client example_ctx ''run'' True [(''a'', PInt 1)] (Uuid 1))
       = PStr ''openstack''
   \<and> routing_key (request example_client example_ctx ''run'' True [(''a'', PInt 1)] (Uuid 1))
       = PStr ''engine''
   \<and> reply_to (request example_client example_ctx ''run'' True [(''a'', PInt 1)] (Uuid 1))
       = Uuid 0
   \<and> correlation_id (request example_client example_ctx ''run'' True [(''a'', PInt 1)] (Uuid 1))
       = Uuid 1
   \<and> delivery_mode (request example_client example_ctx ''run'' True [(''a'', PInt 1)] (Uuid 1))
       = 2
   \<and> issued (snd (async_call (example_deps None None) example_client example_ctx ''run'' PNone
                 [(''a'', PInt 1)] started_world)) (Uuid 1)"
proof -
  let ?s = "request example_client example_ctx ''run'' False [(''a'', PInt 1)] (Uuid 1)"
  let ?a = "request example_client example_ctx ''run'' True [(''a'', PInt 1)] (Uuid 1)"
  have h1: "fst (init (example_deps None None) example_conf example_world) = Inr example_client"
    by (simp add: init_example)
  have h2: "Publish ?s \<in> set (trace_since started_world
         (snd (sync_call (example_deps None None) example_client example_ctx ''run'' PNone
                 [(''a'', PInt 1)] started_world)))"
    by (simp add: sync_call_example_trace)
  have h3: "Publish ?a \<in> set (trace_since started_world
         (snd (async_call (example_deps None None) example_client example_ctx ''run'' PNone
                 [(''a'', PInt 1)] started_world)))"
    by (simp add: async_call_example_trace)
  have ex: "conf_get example_conf ''exchange'' (PStr '''') = PStr ''openstack''"
    by (simp add: conf_get_def example_conf_def)
  have tp: "conf_get example_conf ''topic'' (PStr ''mistral'') = PStr ''engine''"
    by (simp add: conf_get_def example_conf_def)
  have qn: "q_name (callback_queue example_client) = Uuid 0"
    by (simp add: example_client_def example_queue_def)
  have u: "fst (generate_unicode_uuid started_world) = Uuid 1"
    by (simp add: generate_unicode_uuid_def started_world_def)
  note t = request_is_published_as_configured [OF h1, unfolded ex tp qn,
      of _ started_world "example_deps None None" example_ctx "''run''" PNone
         "[(''a'', PInt 1)]", unfolded u]
  from t [of ?s] h2
  have s: "msg_exchange ?s = PStr ''openstack'' \<and> routing_key ?s = PStr ''engine''
      \<and> reply_to ?s = Uuid 0 \<and> correlation_id ?s = Uuid 1
      \<and> \<not> issued started_world (correlation_id ?s)
      \<and> issued (snd (sync_call (example_deps None None) example_client example_ctx ''run''
                  PNone [(''a'', PInt 1)] started_world)) (correlation_id ?s)
      \<and> delivery_mode ?s = 2"
    by blast
  from t [of ?a] h3
  have a: "msg_exchange ?a = PStr ''openstack'' \<and> routing_key ?a = PStr ''engine''
      \<and> reply_to ?a = Uuid 0 \<and> correlation_id ?a = Uuid 1
      \<and> issued (snd (async_call (example_deps None None) example_client example_ctx ''run''
                  PNone [(''a'', PInt 1)] started_world)) (correlation_id ?a)
      \<and> delivery_mode ?a = 2"
    by blast
  from s a h1 h2 h3 show ?thesis
    by (simp add: correlation_id_request)
qed

section \<open>The reply queue\<close>

text \<open>
  C8. A construction that succeeds creates exactly one queue, the client's reply queue:
  it is not durable, it is exclusive and auto-delete, its name is the identifier that
  the generator hands out during the construction (not handed out before, and counted
  as handed out afterwards, so that no later call or client gets it again), the routing
  key of its binding is that same name, and it is bound to the exchange the client
  publishes its requests to.
\<close>

theorem init_creates_one_reply_queue:
  assumes "fst (init E conf w) = Inr cl"
  shows "(\<forall>q. count_list (trace_since w (snd (init E conf w))) (MakeQueue q)
               = (if q = callback_queue cl then 1 else 0))
       \<and> \<not> q_durable (callback_queue cl)
       \<and> q_exclusive (callback_queue cl)
       \<and> q_auto_delete (callback_queue cl)
       \<and> q_name (callback_queue cl) = fst (generate_unicode_uuid w)
       \<and> \<not> issued w (q_name (callback_queue cl))
       \<and> issued (snd (init E conf w)) (q_name (callback_queue cl))
       \<and> queue_name cl = q_name (callback_queue cl)
       \<and> q_routing_key (callback_queue cl) = q_name (callback_queue cl)
       \<and> ex_name (q_exchange (callback_queue cl)) = exchange cl
       \<and> exchange cl = conf_get conf ''exchange'' (PStr '''')"
  using init_client [OF assms] init_events [OF assms] next_uuid_init [OF assms]
  by (simp add: trace_since_def make_exchange_def generate_unicode_uuid_def issued_def)

theorem init_creates_one_reply_queue_witness:
  "fst (init (example_deps None None) example_conf example_world) = Inr example_client
   \<and> count_list (trace_since example_world
        (snd (init (example_deps None None) example_conf example_world)))
        (MakeQueue example_queue) = 1
   \<and> \<not> q_durable example_queue \<and> q_exclusive example_queue \<and> q_auto_delete example_queue
   \<and> q_name example_queue = Uuid 0
   \<and> \<not> issued example_world (Uuid 0)
   \<and> issued (snd (init (example_deps None None) example_conf example_world)) (Uuid 0)
   \<and> queue_name example_client = Uuid 0
   \<and> q_routing_key example_queue = Uuid 0
   \<and> ex_name (q_exchange example_queue) = PStr ''openstack''"
proof -
  have h: "fst (init (example_deps None None) example_conf example_world) = Inr example_client"
    by (simp add: init_example)
  have q: "callback_queue example_client = example_queue"
    by (simp add: example_client_def)
  have u: "fst (generate_unicode_uuid example_world) = Uuid 0"
    by (simp add: generate_unicode_uuid_def example_world_def)
  have x: "exchange example_client = PStr ''openstack''"
    by (simp add: example_client_def)
  note t = init_creates_one_reply_queue [OF h, unfolded q u x]
  from t have "count_list (trace_since example_world
        (snd (init (example_deps None None) example_conf example_world)))
        (MakeQueue example_queue) = 1"
    by simp
  moreover from t have "\<not> q_durable example_queue \<and> q_exclusive example_queue
      \<and> q_auto_delete example_queue \<and> q_name example_queue = Uuid 0
      \<and> \<not> issued example_world (Uuid 0)
      \<and> issued (snd (init (example_deps None None) example_conf example_world)) (Uuid 0)
      \<and> queue_name example_client = Uuid 0 \<and> q_routing_key example_queue = Uuid 0
      \<and> ex_name (q_exchange example_queue) = PStr ''openstack''"
    by (elim conjE) simp
  ultimately show ?thesis
    using h by blast
qed

section \<open>Failure of a publication\<close>



section \<open>The target of a call\<close>

text \<open>
  C10. The \<open>target\<close> argument has no effect: two calls that differ only in it return or
  raise the same thing and leave the same world, hence the same trace with the same
  published message (body, exchange, routing key, properties).
\<close>

theorem target_is_ignored:
  "sync_call E cl ctx method target kwargs w = sync_call E cl ctx method target' kwargs w
   \<and> async_call E cl ctx method target kwargs w = async_call E cl ctx method target' kwargs w"
  by (simp add: sync_call_def async_call_def call_def)

end
